theory Spec2Isabelle
  imports Complex_Main
begin

section \<open>Cross-similarity matrix of two chroma sequences\<close>

text \<open>
  A shallow embedding of \<^verbatim>\<open>src/algorithms/highlevel/crosssimilaritymatrix.cpp\<close>:
  the batch algorithm \<^verbatim>\<open>standard::CrossSimilarityMatrix::compute\<close>, the streaming
  algorithm \<^verbatim>\<open>streaming::CrossSimilarityMatrix::process\<close> and the four free functions
  \<^verbatim>\<open>globalAverageChroma\<close>, \<^verbatim>\<open>optimalTranspositionIndex\<close>, \<^verbatim>\<open>toTimeEmbedding\<close> and
  \<^verbatim>\<open>chromaBinarySimMatrix\<close>.

  Conventions of the model.
  \<^item> \<^verbatim>\<open>Real\<close> (a C++ \<^verbatim>\<open>float\<close>) is the type \<^typ>\<open>real\<close>: arithmetic is exact; rounding,
    overflow to infinity and NaN are not modelled.
  \<^item> \<^verbatim>\<open>std::vector<Real>\<close> is a \<^typ>\<open>real list\<close>, \<^verbatim>\<open>std::vector<std::vector<Real> >\<close> a list
    of such lists; rows may differ in length, as in the source.
  \<^item> The \<^verbatim>\<open>int\<close> parameters are values of type \<^typ>\<open>int\<close>. Frame counts and the product
    \<^verbatim>\<open>m*tau\<close> are taken to lie below \<open>2^31\<close>, so that the conversions between
    \<^verbatim>\<open>size_t\<close> and \<^verbatim>\<open>int\<close> in the source keep the mathematical value.
  \<^item> Every way in which the source leaves its normal path is a value of type \<open>error\<close>:
    the exceptions it throws itself, the exception of the standard library when a vector
    is built with a negative size, and the places where the C++ has no defined behaviour
    (a read outside a vector, an iterator outside its range, a loop that cannot advance).
\<close>

type_synonym frame = "real list"
type_synonym matrix = "real list list"

datatype error =
    EmptyQueryFeature
      \<comment> \<open>\<^verbatim>\<open>EssentiaException("CrossSimilarityMatrix: input queryFeature array is empty.")\<close>\<close>
  | EmptyReferenceFeature
      \<comment> \<open>\<^verbatim>\<open>EssentiaException("CrossSimilarityMatrix: input referenceFeature array is empty.")\<close>\<close>
  | EmptyDistanceMatrix
      \<comment> \<open>\<^verbatim>\<open>EssentiaException("CrossSimilarityMatrix: empty array found inside euclidean cross similarity matrix.")\<close>\<close>
  | InvalidInput
      \<comment> \<open>the error kind the specification names for a sequence too short to embed;
          no path of the source produces it\<close>
  | LengthError
      \<comment> \<open>the standard library's exception for \<^verbatim>\<open>std::vector(n, v)\<close> with \<open>n\<close> converted from
          a negative \<^verbatim>\<open>int\<close>\<close>
  | OutOfBounds
      \<comment> \<open>undefined behaviour: \<^verbatim>\<open>v[i]\<close> with \<open>i\<close> outside \<open>v\<close>, or \<^verbatim>\<open>v.end() - k\<close> before
          \<^verbatim>\<open>v.begin()\<close>\<close>
  | NoProgress
      \<comment> \<open>a \<^verbatim>\<open>for\<close> loop whose step \<^verbatim>\<open>i += tau\<close> does not move towards its bound\<close>
  | ArgmaxOfEmpty
      \<comment> \<open>\<^verbatim>\<open>essentia::argmax\<close> applied to an empty vector\<close>
  | NoProduct
      \<comment> \<open>the product of the two masks yields no matrix; the description of the algorithm
          (line 46) announces an exception when the cross similarity matrix is empty\<close>

subsection \<open>toTimeEmbedding\<close>

text \<open>
  The inner loop of \<^verbatim>\<open>toTimeEmbedding\<close> (lines 380 to 388):
  \<^verbatim>\<open>for (int startTime=i; startTime<stopIdx; startTime+=tau)\<close>. It threads \<^verbatim>\<open>tempRow\<close> and
  \<^verbatim>\<open>timeEmbedding\<close>; the assignment \<^verbatim>\<open>timeEmbedding[i] = tempRow\<close> stands inside the loop
  body. A read \<^verbatim>\<open>inputArray[startTime]\<close> outside the input is \<open>OutOfBounds\<close>. The test
  \<open>0 < tau\<close> in the loop conditions makes the recursion total; \<^verbatim>\<open>toTimeEmbedding\<close> enters the
  loops with \<open>tau \<ge> 1\<close> only, and with \<open>i\<close> below the number of rows of \<^verbatim>\<open>timeEmbedding\<close>.
\<close>

function stackLoop ::
  "matrix \<Rightarrow> int \<Rightarrow> int \<Rightarrow> int \<Rightarrow> int \<Rightarrow> frame \<Rightarrow> matrix \<Rightarrow> error + (frame \<times> matrix)" where
  "stackLoop inputArray tau i stopIdx startTime tempRow timeEmbedding =
     (if startTime < stopIdx \<and> 0 < tau then
        (if 0 \<le> startTime \<and> nat startTime < length inputArray then
           (let tempRow' = (if startTime = i then inputArray ! nat startTime
                            else tempRow @ inputArray ! nat startTime)
            in stackLoop inputArray tau i stopIdx (startTime + tau) tempRow'
                 (timeEmbedding[nat i := tempRow']))
         else Inl OutOfBounds)
      else Inr (tempRow, timeEmbedding))"
  by pat_completeness auto
termination
  by (relation "measure (\<lambda>(inputArray, tau, i, stopIdx, startTime, tempRow, timeEmbedding).
        nat (stopIdx - startTime))") auto

declare stackLoop.simps [simp del]

text \<open>
  The outer loop (lines 378 to 389): \<^verbatim>\<open>for (int i=0; i<frameSize; i+=tau)\<close> with
  \<^verbatim>\<open>stopIdx = i + increment\<close>.
\<close>

function embedLoop ::
  "matrix \<Rightarrow> int \<Rightarrow> int \<Rightarrow> int \<Rightarrow> int \<Rightarrow> frame \<Rightarrow> matrix \<Rightarrow> error + matrix" where
  "embedLoop inputArray tau increment frameSize i tempRow timeEmbedding =
     (if i < frameSize \<and> 0 < tau then
        (case stackLoop inputArray tau i (i + increment) i tempRow timeEmbedding of
           Inl e \<Rightarrow> Inl e
         | Inr (tempRow', timeEmbedding') \<Rightarrow>
             embedLoop inputArray tau increment frameSize (i + tau) tempRow' timeEmbedding')
      else Inr timeEmbedding)"
  by pat_completeness auto
termination
  by (relation "measure (\<lambda>(inputArray, tau, increment, frameSize, i, tempRow, timeEmbedding).
        nat (frameSize - i))") auto

declare embedLoop.simps [simp del]

text \<open>
  \<^verbatim>\<open>toTimeEmbedding(inputArray, m, tau)\<close> (lines 365 to 392). For \<open>m = 1\<close> the input is
  returned. Otherwise \<^verbatim>\<open>inputArray[0]\<close> is read (undefined on an empty input), the result
  is allocated with \<^verbatim>\<open>frameSize = inputArray.size() - m*tau\<close> rows of \<^verbatim>\<open>yDim\<close> zeros (a
  negative count makes the vector constructor throw), and the loops fill the rows
  \<open>0, tau, 2 tau, \<dots>\<close>. With \<open>tau \<le> 0\<close> and a positive \<open>frameSize\<close> the outer loop never
  reaches its bound.
\<close>

definition toTimeEmbedding :: "matrix \<Rightarrow> int \<Rightarrow> int \<Rightarrow> error + matrix" where
  "toTimeEmbedding inputArray m tau =
     (if m = 1 then Inr inputArray
      else if inputArray = [] then Inl OutOfBounds
      else
        (let increment = m * tau;
             frameSize = int (length inputArray) - increment;
             yDim = int (length (inputArray ! 0)) * m
         in if frameSize < 0 \<or> yDim < 0 then Inl LengthError
            else if 0 < frameSize \<and> tau \<le> 0 then Inl NoProgress
            else embedLoop inputArray tau increment frameSize 0 []
                   (replicate (nat frameSize) (replicate (nat yDim) 0))))"

text \<open>
  The frame that the specification describes for the start index \<open>i\<close>: the input rows
  \<open>i, i + tau, \<dots>, i + (m - 1) tau\<close>, one after the other.
\<close>

definition stackedFrame :: "matrix \<Rightarrow> int \<Rightarrow> int \<Rightarrow> int \<Rightarrow> frame" where
  "stackedFrame inputArray m tau i =
     concat (map (\<lambda>k. inputArray ! nat (i + int k * tau)) [0..<nat m])"

subsection \<open>Library primitives\<close>

text \<open>
  The source calls helpers of \<^verbatim>\<open>essentiamath.h\<close> and of the standard library whose code is
  not among the files modelled here. Sequencing of fallible steps is written with
  \<open>andThen\<close>: the first error aborts what follows, as a thrown exception does.
\<close>

definition andThen :: "error + 'a \<Rightarrow> ('a \<Rightarrow> error + 'b) \<Rightarrow> error + 'b" where
  "andThen r f = (case r of Inl e \<Rightarrow> Inl e | Inr x \<Rightarrow> f x)"

fun collect :: "(error + 'a) list \<Rightarrow> error + 'a list" where
  "collect [] = Inr []"
| "collect (r # rs) =
     (case r of
        Inl e \<Rightarrow> Inl e
      | Inr x \<Rightarrow> (case collect rs of Inl e \<Rightarrow> Inl e | Inr xs \<Rightarrow> Inr (x # xs)))"

text \<open>
  \<^verbatim>\<open>std::rotate(v.begin(), v.end() - k, v.end())\<close>: the last \<open>k\<close> elements move to the
  front. The iterator \<^verbatim>\<open>v.end() - k\<close> exists only for \<open>0 \<le> k \<le> v.size()\<close>.
\<close>

definition rotatedBy :: "nat \<Rightarrow> 'a list \<Rightarrow> 'a list" where
  "rotatedBy k v = drop (length v - k) v @ take (length v - k) v"

definition rotateRight :: "'a list \<Rightarrow> int \<Rightarrow> error + 'a list" where
  "rotateRight v k =
     (if 0 \<le> k \<and> nat k \<le> length v then Inr (rotatedBy (nat k) v) else Inl OutOfBounds)"

text \<open>
  Modelled from the spec: \<^verbatim>\<open>essentia::dotProduct\<close>, which the source calls and does not
  define. The specification names it the dot product of the two vectors; the model pairs
  the entries up to the shorter length.
\<close>

definition dotProduct :: "frame \<Rightarrow> frame \<Rightarrow> real" where
  "dotProduct xs ys = sum_list (map2 (*) xs ys)"

text \<open>
  Modelled from the spec: \<^verbatim>\<open>essentia::argmax\<close>, which the source calls and does not define.
  The specification gives it first-maximum semantics (ties go to the smallest index); on an
  empty vector there is no index to return.
\<close>

fun argmaxFrom :: "real list \<Rightarrow> nat \<Rightarrow> nat \<Rightarrow> real \<Rightarrow> nat" where
  "argmaxFrom [] i best v = best"
| "argmaxFrom (x # xs) i best v =
     (if v < x then argmaxFrom xs (Suc i) i x else argmaxFrom xs (Suc i) best v)"

definition argmax :: "real list \<Rightarrow> error + nat" where
  "argmax xs = (case xs of [] \<Rightarrow> Inl ArgmaxOfEmpty | x # rest \<Rightarrow> Inr (argmaxFrom rest 1 0 x))"

text \<open>
  Modelled from the spec: \<^verbatim>\<open>essentia::normalize\<close>, which the source calls and does not
  define. The specification and the comment at line 339 say that the vector is divided by
  its maximum element, and that a division by zero is avoided.
\<close>

definition maxElement :: "real list \<Rightarrow> real" where
  "maxElement xs = fold max (tl xs) (hd xs)"

definition normalize :: "real list \<Rightarrow> real list" where
  "normalize xs =
     (if xs = [] then []
      else if maxElement xs = 0 then xs
      else map (\<lambda>x. x / maxElement xs) xs)"

text \<open>
  Modelled from the spec: \<^verbatim>\<open>transpose\<close> of \<^verbatim>\<open>essentiamath.h\<close>, the transpose of a
  rectangular matrix.
\<close>

definition transposeMatrix :: "matrix \<Rightarrow> matrix" where
  "transposeMatrix M =
     (if M = [] then [] else map (\<lambda>j. map (\<lambda>row. row ! j) M) [0..<length (M ! 0)])"

text \<open>
  Modelled from the spec: \<^verbatim>\<open>heavisideStepFunction\<close> of \<^verbatim>\<open>essentiamath.h\<close>: 1 where the
  value is at least 0, else 0.
\<close>

definition heavisideStepFunction :: "matrix \<Rightarrow> matrix" where
  "heavisideStepFunction M = map (map (\<lambda>x. if x < 0 then 0 else 1)) M"

text \<open>
  The library calls whose contract the specification leaves to the library, or whose code
  is needed to say what they return, are parameters of the model: \<^verbatim>\<open>percentile(row, q)\<close>,
  the distance of two frames from which \<^verbatim>\<open>pairwiseDistance\<close> builds its matrix, and
  \<^verbatim>\<open>TNT::operator*\<close> on two \<^verbatim>\<open>Array2D\<close>, which returns a matrix or none.
\<close>

record library =
  percentile :: "real list \<Rightarrow> real \<Rightarrow> real"
  frameDistance :: "frame \<Rightarrow> frame \<Rightarrow> real"
  arrayProduct :: "matrix \<Rightarrow> matrix \<Rightarrow> matrix option"

text \<open>
  Modelled from the spec: \<^verbatim>\<open>pairwiseDistance\<close> of \<^verbatim>\<open>essentiamath.h\<close>. Rows are indexed by
  the frames of the first sequence, columns by the frames of the second; the entry is the
  distance of the two frames.
\<close>

definition pairwiseDistance :: "library \<Rightarrow> matrix \<Rightarrow> matrix \<Rightarrow> matrix" where
  "pairwiseDistance L A B = map (\<lambda>a. map (\<lambda>b. frameDistance L a b) B) A"

text \<open>
  The result of the product as \<^verbatim>\<open>compute\<close> and \<^verbatim>\<open>process\<close> pass it on.
\<close>

definition productResult :: "matrix option \<Rightarrow> error + matrix" where
  "productResult r = (case r of None \<Rightarrow> Inl NoProduct | Some csmOut \<Rightarrow> Inr csmOut)"

text \<open>
  Modelled from the spec: what \<^verbatim>\<open>TNT::operator*\<close> computes, in the words of the
  specification. It calls the operator standard matrix multiplication: the entry \<open>(i, j)\<close>
  is the sum over \<open>k\<close> of \<open>A[i][k] * B[k][j]\<close>, which exists when \<open>A\<close> has as many columns as
  \<open>B\<close> has rows.
\<close>

definition conformable :: "matrix \<Rightarrow> matrix \<Rightarrow> bool" where
  "conformable A B = (A \<noteq> [] \<and> B \<noteq> [] \<and> length (A ! 0) = length B)"

definition matrixProduct :: "matrix \<Rightarrow> matrix \<Rightarrow> matrix option" where
  "matrixProduct A B =
     (if conformable A B
      then Some (map (\<lambda>i. map (\<lambda>j. sum_list (map (\<lambda>k. A ! i ! k * B ! k ! j) [0..<length B]))
                            [0..<length (B ! 0)])
                   [0..<length A])
      else None)"




subsection \<open>globalAverageChroma and optimalTranspositionIndex\<close>

text \<open>
  \<^verbatim>\<open>globalAverageChroma\<close> (lines 326 to 342) reads \<^verbatim>\<open>inputFeature[0].size()\<close> as the number
  of bins, sums every bin over all frames and normalises the sums. A frame with fewer
  entries than the first one is read outside its range.
\<close>

definition globalAverageChroma :: "matrix \<Rightarrow> error + frame" where
  "globalAverageChroma inputFeature =
     (if inputFeature = [] then Inl OutOfBounds
      else
        (let numbins = length (inputFeature ! 0)
         in if list_ex (\<lambda>row. length row < numbins) inputFeature then Inl OutOfBounds
            else Inr (normalize
                        (map (\<lambda>j. sum_list (map (\<lambda>row. row ! j) inputFeature)) [0..<numbins]))))"

text \<open>
  One pass of the shift loop (lines 351 to 357 and 406 to 411): a copy of \<open>b\<close> is rotated by
  \<open>k\<close> and its dot product with \<open>a\<close> is appended to \<^verbatim>\<open>valueAtShifts\<close>.
\<close>

definition valueAtShift :: "frame \<Rightarrow> frame \<Rightarrow> int \<Rightarrow> error + real" where
  "valueAtShift a b k = andThen (rotateRight b k) (\<lambda>chromaBcopy. Inr (dotProduct a chromaBcopy))"

definition valuesAtShifts :: "frame \<Rightarrow> frame \<Rightarrow> int \<Rightarrow> error + real list" where
  "valuesAtShifts a b nshifts = collect (map (valueAtShift a b) [0..nshifts])"

definition optimalTranspositionIndex :: "matrix \<Rightarrow> matrix \<Rightarrow> int \<Rightarrow> error + nat" where
  "optimalTranspositionIndex chromaA chromaB nshifts =
     andThen (globalAverageChroma chromaA) (\<lambda>globalChromaA.
     andThen (globalAverageChroma chromaB) (\<lambda>globalChromaB.
     andThen (valuesAtShifts globalChromaA globalChromaB nshifts) argmax))"

subsection \<open>chromaBinarySimMatrix\<close>

text \<open>
  The body of the double loop of \<^verbatim>\<open>chromaBinarySimMatrix\<close> (lines 403 to 422) for one pair
  of frames, and the matrix of all pairs.
\<close>

definition otiSimilarity :: "frame \<Rightarrow> frame \<Rightarrow> int \<Rightarrow> real \<Rightarrow> real \<Rightarrow> error + real" where
  "otiSimilarity a b nshifts matchCoef mismatchCoef =
     andThen (valuesAtShifts a b nshifts) (\<lambda>valueAtShifts.
     andThen (argmax valueAtShifts) (\<lambda>otiIndex.
     Inr (if otiIndex = 0 \<or> otiIndex = 1 then matchCoef else mismatchCoef)))"

definition chromaBinarySimMatrix ::
  "matrix \<Rightarrow> matrix \<Rightarrow> int \<Rightarrow> real \<Rightarrow> real \<Rightarrow> error + matrix" where
  "chromaBinarySimMatrix chromaA chromaB nshifts matchCoef mismatchCoef =
     collect (map (\<lambda>a. collect (map (\<lambda>b. otiSimilarity a b nshifts matchCoef mismatchCoef)
                                   chromaB))
                chromaA)"

subsection \<open>Batch mode: compute\<close>

text \<open>
  The configured members of the algorithm (\<^verbatim>\<open>configure\<close>, lines 53 to 65). The two
  coefficients are constants.
\<close>

record config =
  m_tau :: int
  m_embedDimension :: int
  m_kappa :: real
  m_noti :: int
  m_oti :: bool
  m_toBlocked :: bool
  m_otiBinary :: bool
  m_optimiseThreshold :: bool

definition mathcCoef :: real where
  "mathcCoef = 1"

definition mismatchCoef :: real where
  "mismatchCoef = 0"

text \<open>
  The rotation of the reference by the optimal transposition index (lines 96 to 99 and 234
  to 237): \<^verbatim>\<open>std::rotate\<close> is applied to the sequence of reference frames.
\<close>

definition otiRotation :: "config \<Rightarrow> matrix \<Rightarrow> matrix \<Rightarrow> error + matrix" where
  "otiRotation cfg queryFeature referenceFeature =
     (if m_oti cfg then
        andThen (optimalTranspositionIndex queryFeature referenceFeature (m_noti cfg))
          (\<lambda>otiIdx. rotateRight referenceFeature (int otiIdx))
      else Inr referenceFeature)"

text \<open>
  The two masks of the distance mode (lines 118 to 157). \<open>similarityX\<close> has the shape of
  \<^verbatim>\<open>pdistances\<close>; \<open>tSimilarityY\<close> is allocated with \<^verbatim>\<open>yCols\<close> rows of \<^verbatim>\<open>yRows\<close> entries.
\<close>

definition similarityX :: "library \<Rightarrow> config \<Rightarrow> matrix \<Rightarrow> matrix" where
  "similarityX L cfg pdistances =
     (let xRows = length pdistances; xCols = length (pdistances ! 0)
      in if m_optimiseThreshold cfg then replicate xRows (replicate xCols 1)
         else heavisideStepFunction
                (map (\<lambda>k. map (\<lambda>l. percentile L (pdistances ! k) (m_kappa cfg * 100)
                                      - pdistances ! k ! l) [0..<xCols])
                   [0..<xRows]))"

definition similarityY :: "library \<Rightarrow> config \<Rightarrow> matrix \<Rightarrow> matrix" where
  "similarityY L cfg tpDistances =
     (let yRows = length tpDistances; yCols = length (tpDistances ! 0)
      in map (\<lambda>u. map (\<lambda>v. percentile L (tpDistances ! u) (m_kappa cfg * 100)
                            - tpDistances ! u ! v) [0..<yCols])
           [0..<yRows])"

definition tSimilarityY :: "library \<Rightarrow> config \<Rightarrow> matrix \<Rightarrow> matrix" where
  "tSimilarityY L cfg tpDistances =
     (let yRows = length tpDistances; yCols = length (tpDistances ! 0)
      in map (\<lambda>j. map (\<lambda>i. if similarityY L cfg tpDistances ! i ! j < 0 then 0 else 1)
                     [0..<yRows])
           [0..<yCols])"

text \<open>
  The distance mode of \<^verbatim>\<open>compute\<close> (lines 92 to 164). \<^verbatim>\<open>tpDistances[0]\<close> is read at line
  116 whether or not the transposed matrix has a row.
\<close>

definition computeDistance :: "library \<Rightarrow> config \<Rightarrow> matrix \<Rightarrow> matrix \<Rightarrow> error + matrix" where
  "computeDistance L cfg queryFeature referenceFeature =
     andThen (otiRotation cfg queryFeature referenceFeature) (\<lambda>referenceFeature'.
     andThen (toTimeEmbedding queryFeature (m_embedDimension cfg) (m_tau cfg)) (\<lambda>timeEmbedA.
     andThen (toTimeEmbedding referenceFeature' (m_embedDimension cfg) (m_tau cfg)) (\<lambda>timeEmbedB.
       (let pdistances = pairwiseDistance L timeEmbedA timeEmbedB
        in if pdistances = [] then Inl EmptyDistanceMatrix
           else
             (let tpDistances = transposeMatrix pdistances
              in if tpDistances = [] then Inl OutOfBounds
                 else productResult
                        (arrayProduct L (similarityX L cfg pdistances)
                           (tSimilarityY L cfg tpDistances)))))))"

text \<open>
  \<^verbatim>\<open>standard::CrossSimilarityMatrix::compute\<close> (lines 67 to 165) as a function of the two
  input matrices. In the branch for \<^verbatim>\<open>_toBlocked\<close> the two embeddings are computed and
  the scorer is called on the inputs themselves.
\<close>

definition compute :: "library \<Rightarrow> config \<Rightarrow> matrix \<Rightarrow> matrix \<Rightarrow> error + matrix" where
  "compute L cfg queryFeature referenceFeature =
     (if queryFeature = [] then Inl EmptyQueryFeature
      else if referenceFeature = [] then Inl EmptyReferenceFeature
      else if m_otiBinary cfg then
        (if m_toBlocked cfg then
           andThen (toTimeEmbedding queryFeature (m_embedDimension cfg) (m_tau cfg)) (\<lambda>timeEmbedA.
           andThen (toTimeEmbedding referenceFeature (m_embedDimension cfg) (m_tau cfg)) (\<lambda>timeEmbedB.
           chromaBinarySimMatrix queryFeature referenceFeature (m_noti cfg) mathcCoef mismatchCoef))
         else chromaBinarySimMatrix queryFeature referenceFeature (m_noti cfg) mathcCoef mismatchCoef)
      else computeDistance L cfg queryFeature referenceFeature)"

text \<open>
  The error kind \<open>EmptyInput\<close> of the specification covers the two exceptions of lines 73
  to 77.
\<close>

definition EmptyInput :: "error \<Rightarrow> bool" where
  "EmptyInput e = (e = EmptyQueryFeature \<or> e = EmptyReferenceFeature)"

text \<open>
  The ports of the batch algorithm. \<^verbatim>\<open>compute\<close> copies the two inputs into local vectors
  (lines 69 and 70) and holds the output by reference (line 71); the output is assigned
  only at lines 85, 88 and 163, after every step that can throw.
\<close>

record ports =
  queryFeaturePort :: matrix
  referenceFeaturePort :: matrix
  csmPort :: matrix

definition computeOnPorts :: "library \<Rightarrow> config \<Rightarrow> ports \<Rightarrow> (error + unit) \<times> ports" where
  "computeOnPorts L cfg s =
     (let queryFeature = queryFeaturePort s;
          referenceFeature = referenceFeaturePort s
      in case compute L cfg queryFeature referenceFeature of
           Inl e \<Rightarrow> (Inl e, s)
         | Inr csm \<Rightarrow> (Inr (), s\<lparr>csmPort := csm\<rparr>))"

subsection \<open>Streaming mode: process\<close>

text \<open>
  The state of the streaming algorithm: the member \<^verbatim>\<open>_referenceFeature\<close>, the acquire and
  release sizes of the input \<^verbatim>\<open>queryFeature\<close>, the frames waiting in its buffer, the flag
  behind \<^verbatim>\<open>shouldStop()\<close>, and the matrices emitted on the output \<^verbatim>\<open>csm\<close>.
\<close>

datatype AlgorithmStatus = OK | NO_INPUT

record stream =
  referenceFeatureMember :: matrix
  acquireSize :: int
  releaseSize :: int
  available :: matrix
  shouldStop :: bool
  csmOutput :: "matrix list"

definition minFramesSize :: "config \<Rightarrow> int" where
  "minFramesSize cfg = m_embedDimension cfg + 1"

text \<open>
  \<^verbatim>\<open>streaming::CrossSimilarityMatrix::configure\<close> (lines 178 to 196): the reference is copied
  from the parameter, the acquire size is \<^verbatim>\<open>_minFramesSize\<close> and the release size is
  \<^verbatim>\<open>_tau\<close>.
\<close>

definition configure :: "config \<Rightarrow> matrix \<Rightarrow> stream \<Rightarrow> stream" where
  "configure cfg referenceFeature s =
     s\<lparr>referenceFeatureMember := referenceFeature,
       acquireSize := minFramesSize cfg,
       releaseSize := m_tau cfg\<rparr>"

text \<open>
  Modelled from the spec: \<^verbatim>\<open>acquireData\<close>, \<^verbatim>\<open>tokens\<close> and \<^verbatim>\<open>releaseData\<close> of the
  streaming framework, whose code is not among the files modelled here. Acquisition
  succeeds when the buffer holds the acquire size; the acquired window is the first
  \<^verbatim>\<open>acquireSize\<close> frames of the buffer; release drops \<^verbatim>\<open>releaseSize\<close> frames from its front.
\<close>

definition acquireData :: "stream \<Rightarrow> AlgorithmStatus" where
  "acquireData s = (if acquireSize s \<le> int (length (available s)) then OK else NO_INPUT)"

definition tokens :: "stream \<Rightarrow> matrix" where
  "tokens s = take (nat (acquireSize s)) (available s)"

definition releaseData :: "stream \<Rightarrow> stream" where
  "releaseData s = s\<lparr>available := drop (nat (releaseSize s)) (available s)\<rparr>"

text \<open>
  The padding loop of lines 227 to 231:
  \<^verbatim>\<open>for (size_t i=0; i<(_minFramesSize - acquireSize); i++)
      inputFramesCopy.push_back(inputQueryFrames[i]);\<close>
  The read \<^verbatim>\<open>inputQueryFrames[i]\<close> is inside the acquired window only for
  \<open>i < inputQueryFrames.size()\<close>.
\<close>

function padLoop :: "matrix \<Rightarrow> nat \<Rightarrow> nat \<Rightarrow> matrix \<Rightarrow> error + matrix" where
  "padLoop inputQueryFrames n i inputFramesCopy =
     (if i < n then
        (if i < length inputQueryFrames
         then padLoop inputQueryFrames n (Suc i) (inputFramesCopy @ [inputQueryFrames ! i])
         else Inl OutOfBounds)
      else Inr inputFramesCopy)"
  by pat_completeness auto
termination
  by (relation "measure (\<lambda>(inputQueryFrames, n, i, inputFramesCopy). n - i)") auto

declare padLoop.simps [simp del]

definition inputFramesCopy :: "config \<Rightarrow> int \<Rightarrow> matrix \<Rightarrow> error + matrix" where
  "inputFramesCopy cfg acquired inputQueryFrames =
     (if acquired < minFramesSize cfg
      then padLoop inputQueryFrames (nat (minFramesSize cfg - acquired)) 0 inputQueryFrames
      else Inr inputQueryFrames)"

text \<open>
  The scoring of lines 242 to 284 on the two embedded sequences. The distance branch has
  no test for an empty distance matrix; its query-axis mask is all ones.
\<close>

definition streamingMatrix :: "library \<Rightarrow> config \<Rightarrow> matrix \<Rightarrow> matrix \<Rightarrow> error + matrix" where
  "streamingMatrix L cfg queryTimeEmbed referenceTimeEmbed =
     (if m_otiBinary cfg then
        chromaBinarySimMatrix queryTimeEmbed referenceTimeEmbed (m_noti cfg) mathcCoef mismatchCoef
      else
        (let pdistances = pairwiseDistance L queryTimeEmbed referenceTimeEmbed;
             tpDistances = transposeMatrix pdistances
         in if tpDistances = [] then Inl OutOfBounds
            else
              (let yRows = length tpDistances; yCols = length (tpDistances ! 0)
               in productResult
                    (arrayProduct L (replicate yCols (replicate yRows 1))
                       (tSimilarityY L cfg tpDistances)))))"

text \<open>
  \<^verbatim>\<open>process\<close> from line 221 on, once the data is acquired. The rotation of line 236 writes
  the member \<^verbatim>\<open>_referenceFeature\<close>; an exception thrown later leaves that write in place.
\<close>

definition processAcquired ::
  "library \<Rightarrow> config \<Rightarrow> stream \<Rightarrow> (error + AlgorithmStatus) \<times> stream" where
  "processAcquired L cfg s =
     (case inputFramesCopy cfg (acquireSize s) (tokens s) of
        Inl e \<Rightarrow> (Inl e, s)
      | Inr framesCopy \<Rightarrow>
          (case otiRotation cfg framesCopy (referenceFeatureMember s) of
             Inl e \<Rightarrow> (Inl e, s)
           | Inr rotated \<Rightarrow>
               (let s1 = s\<lparr>referenceFeatureMember := rotated\<rparr>
                in case andThen (toTimeEmbedding framesCopy (m_embedDimension cfg) (m_tau cfg))
                          (\<lambda>queryTimeEmbed.
                        andThen (toTimeEmbedding rotated (m_embedDimension cfg) (m_tau cfg))
                          (\<lambda>referenceTimeEmbed.
                        streamingMatrix L cfg queryTimeEmbed referenceTimeEmbed)) of
                     Inl e \<Rightarrow> (Inl e, s1)
                   | Inr csmOut \<Rightarrow>
                       (Inr OK, releaseData (s1\<lparr>csmOutput := csmOutput s1 @ [csmOut]\<rparr>)))))"

text \<open>
  \<^verbatim>\<open>streaming::CrossSimilarityMatrix::process\<close> (lines 198 to 287). When the acquisition
  fails at the end of the stream with frames left, both sizes are set to the number of
  frames left and \<^verbatim>\<open>process\<close> calls itself.
\<close>

function process :: "library \<Rightarrow> config \<Rightarrow> stream \<Rightarrow> (error + AlgorithmStatus) \<times> stream" where
  "process L cfg s =
     (if acquireData s \<noteq> OK then
        (if \<not> shouldStop s then (Inr (acquireData s), s)
         else if length (available s) = 0 then (Inr NO_INPUT, s)
         else process L cfg (s\<lparr>acquireSize := int (length (available s)),
                                releaseSize := int (length (available s))\<rparr>))
      else processAcquired L cfg s)"
  by pat_completeness auto
termination
  by (relation "measure (\<lambda>(L, cfg, s). if acquireData s = OK then 0 else 1)")
     (auto simp: acquireData_def)

declare process.simps [simp del]

text \<open>
  An invocation proceeds to the computation when the acquisition succeeds, at once or
  after the sizes were shrunk at the end of the stream.
\<close>

definition proceeds :: "stream \<Rightarrow> bool" where
  "proceeds s = (acquireData s = OK \<or> (shouldStop s \<and> available s \<noteq> []))"

definition atComputation :: "stream \<Rightarrow> stream" where
  "atComputation s =
     (if acquireData s = OK then s
      else s\<lparr>acquireSize := int (length (available s)),
             releaseSize := int (length (available s))\<rparr>)"

subsection \<open>Sample parameters\<close>

text \<open>
  A library and a configuration on which the model is run at concrete inputs. The sample
  percentile is the maximum of the row for \<open>q \<ge> 100\<close> and its minimum below; the sample
  distance of two frames is the sum of the absolute differences of their entries; the
  sample product is the matrix product of the specification.
\<close>

definition sampleLibrary :: library where
  "sampleLibrary =
     \<lparr>percentile = (\<lambda>row q. if 100 \<le> q then maxElement row else fold min (tl row) (hd row)),
      frameDistance = (\<lambda>a b. sum_list (map2 (\<lambda>x y. \<bar>x - y\<bar>) a b)),
      arrayProduct = matrixProduct\<rparr>"

definition sampleConfig :: config where
  "sampleConfig =
     \<lparr>m_tau = 1, m_embedDimension = 1, m_kappa = 0.095, m_noti = 1, m_oti = True,
      m_toBlocked = True, m_otiBinary = False, m_optimiseThreshold = False\<rparr>"

section \<open>Properties of the time embedding\<close>

subsection \<open>The loops of toTimeEmbedding\<close>

lemma stackedFrame_Suc:
  "stackedFrame inp (int (Suc j)) tau i = stackedFrame inp (int j) tau i @ inp ! nat (i + int j * tau)"
  by (simp add: stackedFrame_def del: of_nat_Suc)

lemma stackLoop_from:
  assumes tau: "0 < tau" and i: "0 \<le> i" and jm: "j < m"
    and rng: "\<forall>k<m. nat (i + int k * tau) < length inp"
    and tmp: "0 < j \<Longrightarrow> tempRow = stackedFrame inp (int j) tau i"
  shows "stackLoop inp tau i (i + int m * tau) (i + int j * tau) tempRow te =
         Inr (stackedFrame inp (int m) tau i, te[nat i := stackedFrame inp (int m) tau i])"
  using jm tmp
proof (induction "m - j" arbitrary: j tempRow te)
  case 0
  then show ?case by simp
next
  case (Suc d)
  let ?row = "if j = 0 then inp ! nat i else tempRow @ inp ! nat (i + int j * tau)"
  have row: "?row = stackedFrame inp (int (Suc j)) tau i"
  proof (cases "j = 0")
    case True
    then show ?thesis by (simp add: stackedFrame_def)
  next
    case False
    with Suc.prems(2) show ?thesis by (simp add: stackedFrame_Suc del: of_nat_Suc)
  qed
  have lt: "i + int j * tau < i + int m * tau"
    using tau Suc.prems(1) by simp
  have inr: "0 \<le> i + int j * tau \<and> nat (i + int j * tau) < length inp"
    using rng Suc.prems(1) i tau by simp
  have eq0: "(i + int j * tau = i) = (j = 0)"
    using tau by simp
  have nxt: "i + int j * tau + tau = i + int (Suc j) * tau"
    by (simp add: algebra_simps)
  have step: "stackLoop inp tau i (i + int m * tau) (i + int j * tau) tempRow te =
      stackLoop inp tau i (i + int m * tau) (i + int (Suc j) * tau) ?row (te[nat i := ?row])"
    using lt inr tau eq0
    by (subst stackLoop.simps) (simp add: Let_def nxt del: of_nat_Suc)
  show ?case
  proof (cases "Suc j < m")
    case True
    have "d = m - Suc j" using Suc.hyps(2) by simp
    from Suc.hyps(1)[OF this True, of ?row "te[nat i := ?row]"] row
    show ?thesis unfolding step by simp
  next
    case False
    then have m: "m = Suc j" using Suc.prems(1) by simp
    have fin: "stackLoop inp tau i (i + int (Suc j) * tau) (i + int (Suc j) * tau)
        ?row (te[nat i := ?row]) = Inr (?row, te[nat i := ?row])"
      by (subst stackLoop.simps) simp
    show ?thesis using step fin row unfolding m by (simp del: of_nat_Suc)
  qed
qed

lemma stackLoop_row:
  assumes "0 < tau" "0 \<le> i" "0 < m" "\<forall>k<m. nat (i + int k * tau) < length inp"
  shows "stackLoop inp tau i (i + int m * tau) i tempRow te =
         Inr (stackedFrame inp (int m) tau i, te[nat i := stackedFrame inp (int m) tau i])"
  using stackLoop_from[OF assms(1,2,3,4), of tempRow te] by simp

lemma stacked_reads_in_range:
  assumes tau: "0 < tau" and i: "0 \<le> i" and lt: "i < int (length inp) - int m * tau" and k: "k < m"
  shows "nat (i + int k * tau) < length inp"
proof -
  have "int k * tau \<le> int m * tau"
    using k tau by (intro mult_right_mono) simp_all
  moreover have "0 \<le> int k * tau" using tau by simp
  ultimately have "0 \<le> i + int k * tau" "i + int k * tau < int (length inp)"
    using lt i tau by linarith+
  then show ?thesis by (simp add: nat_less_iff)
qed

lemma dvd_step:
  fixes tau :: int
  assumes "0 < tau" "p \<noteq> i"
  shows "(i \<le> p \<and> tau dvd (p - i)) = (i + tau \<le> p \<and> tau dvd (p - (i + tau)))"
proof
  assume a: "i \<le> p \<and> tau dvd (p - i)"
  then have pos: "0 < p - i" using assms(2) by simp
  from a have "tau \<le> p - i" using zdvd_imp_le[OF _ pos] by blast
  moreover have "tau dvd (p - (i + tau))"
    using a by (metis diff_diff_add dvd_diff dvd_refl)
  ultimately show "i + tau \<le> p \<and> tau dvd (p - (i + tau))" by simp
next
  assume a: "i + tau \<le> p \<and> tau dvd (p - (i + tau))"
  then have "tau dvd (p - (i + tau)) + tau" by (simp only: dvd_add dvd_refl)
  then show "i \<le> p \<and> tau dvd (p - i)" using a assms(1) by (simp add: algebra_simps)
qed

lemma embedLoop_from:
  assumes tau: "0 < tau" and m: "0 < m"
    and fs: "frameSize = int (length inp) - int m * tau"
    and len: "length te = nat frameSize"
    and i: "0 \<le> i"
  shows "embedLoop inp tau (int m * tau) frameSize i tempRow te =
         Inr (map (\<lambda>p. if i \<le> int p \<and> tau dvd (int p - i)
                          then stackedFrame inp (int m) tau (int p) else te ! p)
                [0..<length te])"
  using len i
proof (induction "nat (frameSize - i)" arbitrary: i tempRow te rule: less_induct)
  case less
  show ?case
  proof (cases "i < frameSize")
    case False
    then have "\<forall>p < length te. \<not> i \<le> int p"
      using less.prems(1) by auto
    then have "map (\<lambda>p. if i \<le> int p \<and> tau dvd (int p - i)
                          then stackedFrame inp (int m) tau (int p) else te ! p)
                [0..<length te] = map (\<lambda>p. te ! p) [0..<length te]"
      by (intro map_cong) auto
    then show ?thesis using False
      by (subst embedLoop.simps) (simp add: map_nth)
  next
    case True
    let ?row = "stackedFrame inp (int m) tau i"
    let ?te = "te[nat i := ?row]"
    have rng: "\<forall>k<m. nat (i + int k * tau) < length inp"
      using stacked_reads_in_range[OF tau less.prems(2)] True fs by blast
    have inner: "stackLoop inp tau i (i + int m * tau) i tempRow te = Inr (?row, ?te)"
      by (rule stackLoop_row[OF tau less.prems(2) m rng])
    have step: "embedLoop inp tau (int m * tau) frameSize i tempRow te =
                embedLoop inp tau (int m * tau) frameSize (i + tau) ?row ?te"
      using True tau inner by (subst embedLoop.simps) simp
    have dec: "nat (frameSize - (i + tau)) < nat (frameSize - i)"
      using True tau by simp
    have len': "length ?te = nat frameSize" using less.prems(1) by simp
    have i': "0 \<le> i + tau" using less.prems(2) tau by simp
    have ilt: "nat i < length te" using True less.prems by simp
    have "map (\<lambda>p. if i + tau \<le> int p \<and> tau dvd (int p - (i + tau))
                    then stackedFrame inp (int m) tau (int p) else ?te ! p) [0..<length ?te]
        = map (\<lambda>p. if i \<le> int p \<and> tau dvd (int p - i)
                    then stackedFrame inp (int m) tau (int p) else te ! p) [0..<length te]"
    proof (intro map_cong)
      show "[0..<length ?te] = [0..<length te]" by simp
    next
      fix p assume "p \<in> set [0..<length te]"
      then have p: "p < length te" by simp
      show "(if i + tau \<le> int p \<and> tau dvd (int p - (i + tau))
             then stackedFrame inp (int m) tau (int p) else ?te ! p) =
            (if i \<le> int p \<and> tau dvd (int p - i)
             then stackedFrame inp (int m) tau (int p) else te ! p)"
      proof (cases "int p = i")
        case True
        then have "p = nat i" by simp
        then show ?thesis using True tau ilt by simp
      next
        case False
        then have "p \<noteq> nat i" using less.prems(2) by auto
        then show ?thesis using dvd_step[OF tau False] by simp
      qed
    qed
    then show ?thesis
      unfolding step using less.hyps[OF dec len' i', of ?row] by simp
  qed
qed

lemma toTimeEmbedding_rows:
  assumes m: "2 \<le> m" and tau: "1 \<le> tau" and ne: "inputArray \<noteq> []"
    and fits: "m * tau \<le> int (length inputArray)"
  shows "toTimeEmbedding inputArray m tau =
         Inr (map (\<lambda>p. if tau dvd int p then stackedFrame inputArray m tau (int p)
                          else replicate (length (inputArray ! 0) * nat m) 0)
                [0..<length inputArray - nat (m * tau)])"
proof -
  let ?fs = "int (length inputArray) - m * tau"
  let ?y = "int (length (inputArray ! 0)) * m"
  let ?te = "replicate (nat ?fs) (replicate (nat ?y) (0::real))"
  have mm: "int (nat m) = m" using m by simp
  have run: "embedLoop inputArray tau (int (nat m) * tau) ?fs 0 [] ?te =
        Inr (map (\<lambda>p. if 0 \<le> int p \<and> tau dvd (int p - 0)
                          then stackedFrame inputArray (int (nat m)) tau (int p) else ?te ! p)
                [0..<length ?te])"
    by (rule embedLoop_from) (use m tau in \<open>simp_all\<close>)
  have same: "map (\<lambda>p. if 0 \<le> int p \<and> tau dvd (int p - 0)
                          then stackedFrame inputArray (int (nat m)) tau (int p) else ?te ! p)
                [0..<length ?te] =
       map (\<lambda>p. if tau dvd int p then stackedFrame inputArray m tau (int p)
                          else replicate (length (inputArray ! 0) * nat m) 0)
                [0..<length inputArray - nat (m * tau)]"
  proof (intro map_cong)
    show "[0..<length ?te] = [0..<length inputArray - nat (m * tau)]"
      using fits m tau by (simp add: nat_diff_distrib')
  next
    fix p assume "p \<in> set [0..<length inputArray - nat (m * tau)]"
    then have "p < nat ?fs" using fits m tau by (simp add: nat_diff_distrib')
    then show "(if 0 \<le> int p \<and> tau dvd (int p - 0)
                 then stackedFrame inputArray (int (nat m)) tau (int p) else ?te ! p) =
               (if tau dvd int p then stackedFrame inputArray m tau (int p)
                          else replicate (length (inputArray ! 0) * nat m) 0)"
      using m by (simp add: nat_mult_distrib)
  qed
  have embed: "embedLoop inputArray tau (m * tau) ?fs 0 [] ?te =
       Inr (map (\<lambda>p. if tau dvd int p then stackedFrame inputArray m tau (int p)
                          else replicate (length (inputArray ! 0) * nat m) 0)
                [0..<length inputArray - nat (m * tau)])"
    by (rule trans[OF run[unfolded mm] arg_cong[where f=Inr, OF same[unfolded mm]]])
  have guards: "m \<noteq> 1" "\<not> (?fs < 0 \<or> ?y < 0)" "\<not> (0 < ?fs \<and> tau \<le> 0)"
    using m tau fits by (simp_all add: not_less mult_nonneg_nonneg)
  show ?thesis
    unfolding toTimeEmbedding_def Let_def using guards ne embed by simp
qed


subsection \<open>Rows of the embedding\<close>




subsection \<open>Sequences shorter than the embedding window\<close>




section \<open>Properties of the batch algorithm\<close>

subsection \<open>Which errors a step can raise\<close>

lemma andThen_Inl_cases:
  assumes "andThen r f = Inl e"
  shows "r = Inl e \<or> (\<exists>x. r = Inr x \<and> f x = Inl e)"
  using assms by (cases r) (simp_all add: andThen_def)

lemma andThen_Inr [simp]: "andThen (Inr x) f = f x"
  by (simp add: andThen_def)

lemma andThen_Inl [simp]: "andThen (Inl e) f = Inl e"
  by (simp add: andThen_def)

lemma collect_Inl:
  assumes "collect rs = Inl e"
  shows "Inl e \<in> set rs"
  using assms by (induction rs) (auto split: sum.splits)

lemma collect_map_Inl:
  assumes "collect (map f xs) = Inl e"
  shows "\<exists>x\<in>set xs. f x = Inl e"
  using collect_Inl[OF assms] by auto

lemma stackLoop_Inl:
  "stackLoop inputArray tau i stopIdx startTime tempRow timeEmbedding = Inl e \<Longrightarrow> e = OutOfBounds"
proof (induction inputArray tau i stopIdx startTime tempRow timeEmbedding rule: stackLoop.induct)
  case (1 inputArray tau i stopIdx startTime tempRow timeEmbedding)
  from "1.prems" show ?case
    by (subst (asm) stackLoop.simps) (auto simp: Let_def split: if_splits intro: "1.IH")
qed

lemma embedLoop_Inl:
  "embedLoop inputArray tau increment frameSize i tempRow timeEmbedding = Inl e \<Longrightarrow> e = OutOfBounds"
proof (induction inputArray tau increment frameSize i tempRow timeEmbedding rule: embedLoop.induct)
  case (1 inputArray tau increment frameSize i tempRow timeEmbedding)
  from "1.prems" show ?case
    by (subst (asm) embedLoop.simps)
       (auto split: if_splits sum.splits dest: stackLoop_Inl intro: "1.IH")
qed

lemma toTimeEmbedding_Inl:
  "toTimeEmbedding inputArray m tau = Inl e \<Longrightarrow> e \<in> {OutOfBounds, LengthError, NoProgress}"
  by (auto simp: toTimeEmbedding_def Let_def split: if_splits dest: embedLoop_Inl)

lemma rotateRight_Inl: "rotateRight v k = Inl e \<Longrightarrow> e = OutOfBounds"
  by (auto simp: rotateRight_def split: if_splits)

lemma argmax_Inl: "argmax xs = Inl e \<Longrightarrow> e = ArgmaxOfEmpty"
  by (auto simp: argmax_def split: list.splits)

lemma globalAverageChroma_Inl: "globalAverageChroma M = Inl e \<Longrightarrow> e = OutOfBounds"
  by (auto simp: globalAverageChroma_def Let_def split: if_splits)

lemma valueAtShift_Inl: "valueAtShift a b k = Inl e \<Longrightarrow> e = OutOfBounds"
  by (auto simp: valueAtShift_def dest!: andThen_Inl_cases rotateRight_Inl)

lemma valuesAtShifts_Inl: "valuesAtShifts a b n = Inl e \<Longrightarrow> e = OutOfBounds"
  by (auto simp: valuesAtShifts_def dest!: collect_map_Inl valueAtShift_Inl)

lemma optimalTranspositionIndex_Inl:
  "optimalTranspositionIndex A B n = Inl e \<Longrightarrow> e \<in> {OutOfBounds, ArgmaxOfEmpty}"
  by (auto simp: optimalTranspositionIndex_def
           dest!: andThen_Inl_cases globalAverageChroma_Inl valuesAtShifts_Inl argmax_Inl)

lemma otiSimilarity_Inl:
  "otiSimilarity a b n mc mmc = Inl e \<Longrightarrow> e \<in> {OutOfBounds, ArgmaxOfEmpty}"
  by (auto simp: otiSimilarity_def dest!: andThen_Inl_cases valuesAtShifts_Inl argmax_Inl)

lemma chromaBinarySimMatrix_Inl:
  "chromaBinarySimMatrix A B n mc mmc = Inl e \<Longrightarrow> e \<in> {OutOfBounds, ArgmaxOfEmpty}"
  by (auto simp: chromaBinarySimMatrix_def dest!: collect_map_Inl otiSimilarity_Inl)

lemma otiRotation_Inl:
  "otiRotation cfg q r = Inl e \<Longrightarrow> e \<in> {OutOfBounds, ArgmaxOfEmpty}"
  by (auto simp: otiRotation_def split: if_splits
           dest!: andThen_Inl_cases optimalTranspositionIndex_Inl rotateRight_Inl)

lemma productResult_Inl: "productResult r = Inl e \<Longrightarrow> e = NoProduct"
  by (auto simp: productResult_def split: option.splits)

lemma computeDistance_Inl:
  "computeDistance L cfg q r = Inl e \<Longrightarrow>
   e \<in> {OutOfBounds, ArgmaxOfEmpty, LengthError, NoProgress, EmptyDistanceMatrix, NoProduct}"
  by (auto simp: computeDistance_def Let_def split: if_splits
           dest!: andThen_Inl_cases otiRotation_Inl toTimeEmbedding_Inl productResult_Inl)

lemma compute_nonempty_Inl:
  assumes "q \<noteq> []" "r \<noteq> []" "compute L cfg q r = Inl e"
  shows "\<not> EmptyInput e"
  using assms
  by (auto simp: compute_def EmptyInput_def split: if_splits
           dest!: andThen_Inl_cases toTimeEmbedding_Inl chromaBinarySimMatrix_Inl computeDistance_Inl)

subsection \<open>Empty inputs\<close>

text \<open>
  Claim C9. \<^verbatim>\<open>compute\<close> ends with the error \<open>EmptyInput\<close> exactly when the query matrix or
  the reference matrix is empty; this holds for every configuration and every library, no
  other step of \<^verbatim>\<open>compute\<close> raises that error, and in that case the ports are left as they
  were: no output matrix is written.
\<close>

theorem compute_EmptyInput_iff:
  "((\<exists>e. fst (computeOnPorts L cfg s) = Inl e \<and> EmptyInput e) =
      (queryFeaturePort s = [] \<or> referenceFeaturePort s = [])) \<and>
   ((queryFeaturePort s = [] \<or> referenceFeaturePort s = []) \<longrightarrow>
      snd (computeOnPorts L cfg s) = s)"
proof -
  have a: "queryFeaturePort s = [] \<Longrightarrow> computeOnPorts L cfg s = (Inl EmptyQueryFeature, s)"
    by (simp add: computeOnPorts_def compute_def)
  have b: "queryFeaturePort s \<noteq> [] \<Longrightarrow> referenceFeaturePort s = []
           \<Longrightarrow> computeOnPorts L cfg s = (Inl EmptyReferenceFeature, s)"
    by (simp add: computeOnPorts_def compute_def)
  have c: "\<not> EmptyInput e" if "queryFeaturePort s \<noteq> []" "referenceFeaturePort s \<noteq> []"
      "fst (computeOnPorts L cfg s) = Inl e" for e
  proof -
    from that(3) have "compute L cfg (queryFeaturePort s) (referenceFeaturePort s) = Inl e"
      by (auto simp: computeOnPorts_def Let_def split: sum.splits)
    with that(1,2) show ?thesis by (rule compute_nonempty_Inl)
  qed
  show ?thesis
  proof (cases "queryFeaturePort s = []")
    case True
    then show ?thesis using a by (auto simp: EmptyInput_def)
  next
    case q: False
    show ?thesis
    proof (cases "referenceFeaturePort s = []")
      case True
      then show ?thesis using b[OF q] q by (auto simp: EmptyInput_def)
    next
      case False
      then show ?thesis using c[OF q False] q by auto
    qed
  qed
qed

theorem compute_EmptyInput_iff_witness:
  "(\<exists>e. fst (computeOnPorts sampleLibrary sampleConfig
              \<lparr>queryFeaturePort = [[1, 2]], referenceFeaturePort = [], csmPort = [[7]]\<rparr>) = Inl e
        \<and> EmptyInput e) \<and>
   snd (computeOnPorts sampleLibrary sampleConfig
          \<lparr>queryFeaturePort = [[1, 2]], referenceFeaturePort = [], csmPort = [[7]]\<rparr>) =
     \<lparr>queryFeaturePort = [[1, 2]], referenceFeaturePort = [], csmPort = [[7]]\<rparr>"
  using compute_EmptyInput_iff[of sampleLibrary sampleConfig
          "\<lparr>queryFeaturePort = [[1, 2]], referenceFeaturePort = [], csmPort = [[7]]\<rparr>"]
  by simp

subsection \<open>The inputs are not modified\<close>



subsection \<open>The OTI-binary mode and toBlocked\<close>

lemma toTimeEmbedding_succeeds:
  assumes "inputArray \<noteq> []"
    and "m = 1 \<or> (2 \<le> m \<and> 1 \<le> tau \<and> m * tau \<le> int (length inputArray))"
  shows "\<exists>out. toTimeEmbedding inputArray m tau = Inr out"
proof (cases "m = 1")
  case True
  then show ?thesis by (simp add: toTimeEmbedding_def)
next
  case False
  with assms(2) have "2 \<le> m" "1 \<le> tau" "m * tau \<le> int (length inputArray)" by simp_all
  from toTimeEmbedding_rows[OF this(1,2) assms(1) this(3)] show ?thesis by blast
qed

text \<open>
  Claim C4, as the code has it. In OTI-binary mode, for non-empty inputs on which the time
  embedding succeeds (\<open>embedDimension = 1\<close>, or \<open>embedDimension \<ge> 2\<close>, \<open>tau \<ge> 1\<close> and both inputs
  have at least \<open>embedDimension * tau\<close> frames), the result with \<open>toBlocked = true\<close> equals the
  result with \<open>toBlocked = false\<close>, and both are \<^verbatim>\<open>chromaBinarySimMatrix\<close> applied to the raw
  inputs with \<open>noti\<close> shifts. The claim as stated, for every pair of non-empty inputs, fails:
  with \<open>toBlocked = true\<close> the embeddings of lines 83 and 84 are computed before the scorer
  is called, and on an input shorter than \<open>embedDimension * tau\<close> they abort the call.
\<close>

theorem compute_otiBinary_ignores_toBlocked:
  assumes "queryFeature \<noteq> []" and "referenceFeature \<noteq> []" and "m_otiBinary cfg"
    and "m_embedDimension cfg = 1 \<or>
         (2 \<le> m_embedDimension cfg \<and> 1 \<le> m_tau cfg \<and>
          m_embedDimension cfg * m_tau cfg \<le> int (length queryFeature) \<and>
          m_embedDimension cfg * m_tau cfg \<le> int (length referenceFeature))"
  shows "compute L (cfg\<lparr>m_toBlocked := True\<rparr>) queryFeature referenceFeature =
           chromaBinarySimMatrix queryFeature referenceFeature (m_noti cfg) mathcCoef mismatchCoef \<and>
         compute L (cfg\<lparr>m_toBlocked := False\<rparr>) queryFeature referenceFeature =
           chromaBinarySimMatrix queryFeature referenceFeature (m_noti cfg) mathcCoef mismatchCoef"
proof -
  obtain A where A: "toTimeEmbedding queryFeature (m_embedDimension cfg) (m_tau cfg) = Inr A"
    using toTimeEmbedding_succeeds[OF assms(1), of "m_embedDimension cfg" "m_tau cfg"] assms(4)
    by blast
  obtain B where B: "toTimeEmbedding referenceFeature (m_embedDimension cfg) (m_tau cfg) = Inr B"
    using toTimeEmbedding_succeeds[OF assms(2), of "m_embedDimension cfg" "m_tau cfg"] assms(4)
    by blast
  show ?thesis using assms(1,2,3) A B by (simp add: compute_def)
qed

theorem compute_otiBinary_ignores_toBlocked_witness:
  "compute sampleLibrary
     (sampleConfig\<lparr>m_otiBinary := True, m_embedDimension := 2, m_noti := 2, m_toBlocked := True\<rparr>)
     [[1, 0, 0], [0, 1, 0], [0, 0, 1], [1, 0, 0]] [[1, 0, 0], [0, 1, 0], [0, 0, 1], [1, 0, 0]] =
     Inr [[1, 0, 1, 1], [1, 1, 0, 1], [0, 1, 1, 0], [1, 0, 1, 1]] \<and>
   compute sampleLibrary
     (sampleConfig\<lparr>m_otiBinary := True, m_embedDimension := 2, m_noti := 2, m_toBlocked := False\<rparr>)
     [[1, 0, 0], [0, 1, 0], [0, 0, 1], [1, 0, 0]] [[1, 0, 0], [0, 1, 0], [0, 0, 1], [1, 0, 0]] =
     Inr [[1, 0, 1, 1], [1, 1, 0, 1], [0, 1, 1, 0], [1, 0, 1, 1]]"
proof -
  have ev: "chromaBinarySimMatrix [[1, 0, 0], [0, 1, 0], [0, 0, 1], [1, 0, 0]]
              [[1, 0, 0], [0, 1, 0], [0, 0, 1], [1, 0, 0]] 2 mathcCoef mismatchCoef =
            Inr [[1, 0, 1, 1], [1, 1, 0, 1], [0, 1, 1, 0], [1, 0, 1, 1]]"
    by code_simp
  show ?thesis
    using ev compute_otiBinary_ignores_toBlocked[of
        "[[1, 0, 0], [0, 1, 0], [0, 0, 1], [1, 0, 0]]"
        "[[1, 0, 0], [0, 1, 0], [0, 0, 1], [1, 0, 0]]"
        "sampleConfig\<lparr>m_otiBinary := True, m_embedDimension := 2, m_noti := 2\<rparr>"
        sampleLibrary]
    by (simp add: sampleConfig_def)
qed

theorem compute_otiBinary_toBlocked_counterexample:
  "compute sampleLibrary
     (sampleConfig\<lparr>m_otiBinary := True, m_embedDimension := 2, m_toBlocked := True\<rparr>)
     [[1]] [[1]] = Inl LengthError \<and>
   compute sampleLibrary
     (sampleConfig\<lparr>m_otiBinary := True, m_embedDimension := 2, m_toBlocked := False\<rparr>)
     [[1]] [[1]] = Inr [[1]] \<and>
   chromaBinarySimMatrix [[1]] [[1]] 1 mathcCoef mismatchCoef = Inr [[1]]"
  by code_simp

section \<open>Properties of the streaming algorithm\<close>

subsection \<open>Padding of an undersized window\<close>

text \<open>
  The padding loop appends the first \<open>minFramesSize - acquired\<close> frames of the acquired
  window when the window holds that many frames, and reads outside the window when it
  does not.
\<close>

lemma padLoop_inside:
  assumes "n \<le> length toks" "i \<le> n"
  shows "padLoop toks n i acc = Inr (acc @ take (n - i) (drop i toks))"
  using assms(2)
proof (induction "n - i" arbitrary: i acc)
  case 0
  then show ?case by (subst padLoop.simps) simp
next
  case (Suc d)
  then have lt: "i < n" and il: "i < length toks" using assms(1) by simp_all
  have d: "d = n - Suc i" using Suc.hyps(2) by simp
  have "take (n - i) (drop i toks) = toks ! i # take (n - Suc i) (drop (Suc i) toks)"
    using lt il by (metis Cons_nth_drop_Suc Suc_diff_Suc take_Suc_Cons)
  then show ?case
    using lt il Suc.hyps(1)[OF d, of "acc @ [toks ! i]"]
    by (subst padLoop.simps) simp
qed

lemma padLoop_outside:
  assumes "length toks < n" "i \<le> length toks"
  shows "padLoop toks n i acc = Inl OutOfBounds"
  using assms(2)
proof (induction "length toks - i" arbitrary: i acc)
  case 0
  then show ?case using assms(1) by (subst padLoop.simps) simp
next
  case (Suc d)
  then have il: "i < length toks" by simp
  have d: "d = length toks - Suc i" using Suc.hyps(2) by simp
  show ?case
    using il assms(1) Suc.hyps(1)[OF d, of "acc @ [toks ! i]"]
    by (subst padLoop.simps) simp
qed

lemma inputFramesCopy_padded:
  assumes "acquired = int (length toks)" and "acquired < minFramesSize cfg"
    and "minFramesSize cfg \<le> 2 * acquired"
  shows "inputFramesCopy cfg acquired toks = Inr (toks @ take (nat (minFramesSize cfg - acquired)) toks)"
    and "int (length (toks @ take (nat (minFramesSize cfg - acquired)) toks)) = minFramesSize cfg"
  using assms padLoop_inside[of "nat (minFramesSize cfg - acquired)" toks 0 toks]
  by (simp_all add: inputFramesCopy_def)

lemma inputFramesCopy_unchanged:
  assumes "minFramesSize cfg \<le> acquired"
  shows "inputFramesCopy cfg acquired toks = Inr toks"
  using assms by (simp add: inputFramesCopy_def)

lemma inputFramesCopy_outside:
  assumes "acquired = int (length toks)" and "2 * acquired < minFramesSize cfg"
  shows "inputFramesCopy cfg acquired toks = Inl OutOfBounds"
  using assms padLoop_outside[of toks "nat (minFramesSize cfg - acquired)" 0 toks]
  by (simp add: inputFramesCopy_def)

text \<open>
  Claim C6 fails on the code. The claim: whenever fewer frames than the minimum window
  \<open>embedDimension + 1\<close> are acquired, the working copy is padded with frames from the start of
  the acquired window until it has the minimum length. The code: with \<open>embedDimension = 2\<close>
  the minimum is 3; at the end of a stream with one frame left the acquire size becomes 1,
  the loop of line 228 runs for \<open>i = 0, 1\<close> and reads \<^verbatim>\<open>inputQueryFrames[1]\<close>, which is not
  a frame of the acquired window. No padded copy results. (By \<open>inputFramesCopy_padded\<close> the
  claim holds when the minimum is at most twice the acquired count, and by
  \<open>inputFramesCopy_outside\<close> the read leaves the window in every other case.)
\<close>

theorem process_padding_reads_outside_window:
  "fst (process sampleLibrary (sampleConfig\<lparr>m_embedDimension := 2\<rparr>)
          \<lparr>referenceFeatureMember = [[1, 0], [0, 1], [1, 1]], acquireSize = 3, releaseSize = 1,
             available = [[1, 0]], shouldStop = True, csmOutput = []\<rparr>) = Inl OutOfBounds \<and>
   inputFramesCopy (sampleConfig\<lparr>m_embedDimension := 2\<rparr>) 1 [[1, 0]] = Inl OutOfBounds \<and>
   minFramesSize (sampleConfig\<lparr>m_embedDimension := 2\<rparr>) = 3"
  by code_simp

subsection \<open>The rotation of the stored reference\<close>

lemma rotatedBy_zero [simp]: "rotatedBy 0 v = v"
  by (simp add: rotatedBy_def)

lemma referenceFeatureMember_atComputation [simp]:
  "referenceFeatureMember (atComputation s) = referenceFeatureMember s"
  by (simp add: atComputation_def)

lemma acquireData_atComputation:
  "acquireData (atComputation s) = OK"
  by (simp add: atComputation_def acquireData_def)

lemma process_proceeds:
  assumes "proceeds s"
  shows "process L cfg s = processAcquired L cfg (atComputation s)"
proof (cases "acquireData s = OK")
  case True
  then show ?thesis by (subst process.simps) (simp add: atComputation_def)
next
  case False
  with assms have stop: "shouldStop s" and av: "available s \<noteq> []"
    by (simp_all add: proceeds_def)
  have "process L cfg s = process L cfg (atComputation s)"
    using False stop av by (subst process.simps) (simp add: atComputation_def)
  also have "\<dots> = processAcquired L cfg (atComputation s)"
    using acquireData_atComputation[of s] by (subst process.simps) simp
  finally show ?thesis .
qed

lemma process_waits:
  assumes "\<not> proceeds s"
  shows "snd (process L cfg s) = s"
  using assms by (subst process.simps) (auto simp: proceeds_def)

lemma otiRotation_result:
  assumes "otiRotation cfg q r = Inr r'"
  shows "\<exists>k\<le>length r. r' = rotatedBy k r"
proof (cases "m_oti cfg")
  case False
  with assms have "r' = rotatedBy 0 r" by (simp add: otiRotation_def)
  then show ?thesis by blast
next
  case True
  with assms obtain k where "rotateRight r (int k) = Inr r'"
    by (auto simp: otiRotation_def andThen_def split: sum.splits)
  then have "k \<le> length r \<and> r' = rotatedBy k r"
    by (auto simp: rotateRight_def split: if_splits)
  then show ?thesis by blast
qed

lemma otiRotation_enabled:
  assumes "m_oti cfg" and "optimalTranspositionIndex q r (m_noti cfg) = Inr k" and "k \<le> length r"
  shows "otiRotation cfg q r = Inr (rotatedBy k r)"
  using assms by (simp add: otiRotation_def rotateRight_def)

lemma referenceFeatureMember_releaseData [simp]:
  "referenceFeatureMember (releaseData s) = referenceFeatureMember s"
  by (simp add: releaseData_def)

lemma processAcquired_reference:
  "referenceFeatureMember (snd (processAcquired L cfg s)) =
     (case inputFramesCopy cfg (acquireSize s) (tokens s) of
        Inl e \<Rightarrow> referenceFeatureMember s
      | Inr framesCopy \<Rightarrow>
          (case otiRotation cfg framesCopy (referenceFeatureMember s) of
             Inl e \<Rightarrow> referenceFeatureMember s
           | Inr rotated \<Rightarrow> rotated))"
  by (simp add: processAcquired_def Let_def split: sum.splits)

lemma process_reference_step:
  assumes "m_oti cfg" and "proceeds s"
    and "inputFramesCopy cfg (acquireSize (atComputation s)) (tokens (atComputation s)) = Inr framesCopy"
    and "optimalTranspositionIndex framesCopy (referenceFeatureMember s) (m_noti cfg) = Inr otiIdx"
    and "otiIdx \<le> length (referenceFeatureMember s)"
  shows "referenceFeatureMember (snd (process L cfg s)) = rotatedBy otiIdx (referenceFeatureMember s)"
  using assms(3) otiRotation_enabled[OF assms(1,4,5)]
  by (simp add: process_proceeds[OF assms(2)] processAcquired_reference)

lemma process_only_rotates:
  "\<exists>k\<le>length (referenceFeatureMember s).
     referenceFeatureMember (snd (process L cfg s)) = rotatedBy k (referenceFeatureMember s)"
proof (cases "proceeds s")
  case False
  then have "referenceFeatureMember (snd (process L cfg s)) = rotatedBy 0 (referenceFeatureMember s)"
    by (simp add: process_waits)
  then show ?thesis by blast
next
  case True
  let ?s = "atComputation s"
  show ?thesis
  proof (cases "inputFramesCopy cfg (acquireSize ?s) (tokens ?s)")
    case (Inl e)
    then have "referenceFeatureMember (snd (process L cfg s)) = rotatedBy 0 (referenceFeatureMember s)"
      by (simp add: process_proceeds[OF True] processAcquired_reference)
    then show ?thesis by blast
  next
    case fc: (Inr framesCopy)
    show ?thesis
    proof (cases "otiRotation cfg framesCopy (referenceFeatureMember s)")
      case (Inl e)
      then have "referenceFeatureMember (snd (process L cfg s)) = rotatedBy 0 (referenceFeatureMember s)"
        using fc by (simp add: process_proceeds[OF True] processAcquired_reference)
      then show ?thesis by blast
    next
      case (Inr rotated)
      then have "referenceFeatureMember (snd (process L cfg s)) = rotated"
        using fc by (simp add: process_proceeds[OF True] processAcquired_reference)
      with otiRotation_result[OF Inr] show ?thesis by simp
    qed
  qed
qed

text \<open>
  Claim C5. With \<open>oti\<close> enabled, an invocation of \<^verbatim>\<open>process\<close> that proceeds to the computation
  and computes the index \<open>otiIdx\<close> leaves the member \<^verbatim>\<open>_referenceFeature\<close> rotated by \<open>otiIdx\<close>;
  the next such invocation computes its index against the rotated member and rotates it
  again, so that after two invocations the member is the original rotated by the first
  and then by the second index. Whatever the state, \<^verbatim>\<open>process\<close> ends with the member being
  a rotation of what it was before: nothing writes the original back.
\<close>

theorem process_rotations_compound:
  assumes "m_oti cfg"
    and "proceeds s"
    and "inputFramesCopy cfg (acquireSize (atComputation s)) (tokens (atComputation s)) = Inr framesCopy"
    and "optimalTranspositionIndex framesCopy (referenceFeatureMember s) (m_noti cfg) = Inr otiIdx"
    and "otiIdx \<le> length (referenceFeatureMember s)"
    and "s' = snd (process L cfg s)"
    and "proceeds s'"
    and "inputFramesCopy cfg (acquireSize (atComputation s')) (tokens (atComputation s')) = Inr framesCopy'"
    and "optimalTranspositionIndex framesCopy' (referenceFeatureMember s') (m_noti cfg) = Inr otiIdx'"
    and "otiIdx' \<le> length (referenceFeatureMember s')"
  shows "referenceFeatureMember s' = rotatedBy otiIdx (referenceFeatureMember s) \<and>
         referenceFeatureMember (snd (process L cfg s')) =
           rotatedBy otiIdx' (rotatedBy otiIdx (referenceFeatureMember s)) \<and>
         (\<forall>t. \<exists>k\<le>length (referenceFeatureMember t).
            referenceFeatureMember (snd (process L cfg t)) = rotatedBy k (referenceFeatureMember t))"
proof -
  have one: "referenceFeatureMember s' = rotatedBy otiIdx (referenceFeatureMember s)"
    unfolding assms(6) by (rule process_reference_step[OF assms(1-5)])
  have two: "referenceFeatureMember (snd (process L cfg s')) =
             rotatedBy otiIdx' (referenceFeatureMember s')"
    by (rule process_reference_step[OF assms(1) assms(7-10)])
  show ?thesis using one two process_only_rotates[of _ L cfg] by simp
qed

theorem process_rotations_compound_witness:
  "referenceFeatureMember
     (snd (process sampleLibrary (sampleConfig\<lparr>m_otiBinary := True, m_noti := 2\<rparr>)
        \<lparr>referenceFeatureMember = [[2, 1, 0], [0, 2, 1], [1, 0, 2], [5, 0, 0]],
           acquireSize = 2, releaseSize = 1,
           available = [[1, 2, 0], [1, 2, 0], [0, 0, 1]], shouldStop = False, csmOutput = []\<rparr>)) =
     [[5, 0, 0], [2, 1, 0], [0, 2, 1], [1, 0, 2]] \<and>
   referenceFeatureMember
     (snd (process sampleLibrary (sampleConfig\<lparr>m_otiBinary := True, m_noti := 2\<rparr>)
        (snd (process sampleLibrary (sampleConfig\<lparr>m_otiBinary := True, m_noti := 2\<rparr>)
           \<lparr>referenceFeatureMember = [[2, 1, 0], [0, 2, 1], [1, 0, 2], [5, 0, 0]],
              acquireSize = 2, releaseSize = 1,
              available = [[1, 2, 0], [1, 2, 0], [0, 0, 1]], shouldStop = False,
              csmOutput = []\<rparr>)))) =
     [[1, 0, 2], [5, 0, 0], [2, 1, 0], [0, 2, 1]]"
proof -
  let ?C = "sampleConfig\<lparr>m_otiBinary := True, m_noti := 2\<rparr>"
  let ?s = "\<lparr>referenceFeatureMember = [[2, 1, 0], [0, 2, 1], [1, 0, 2], [5, 0, 0]],
             acquireSize = 2, releaseSize = 1,
             available = [[1, 2, 0], [1, 2, 0], [0, 0, 1]], shouldStop = False, csmOutput = []\<rparr>"
  let ?s' = "snd (process sampleLibrary ?C ?s)"
  have s': "?s' = \<lparr>referenceFeatureMember = [[5, 0, 0], [2, 1, 0], [0, 2, 1], [1, 0, 2]],
                    acquireSize = 2, releaseSize = 1, available = [[1, 2, 0], [0, 0, 1]],
                    shouldStop = False, csmOutput = [[[1, 1, 1, 1], [1, 1, 1, 1]]]\<rparr>"
    by code_simp
  have h1: "m_oti ?C" by (simp add: sampleConfig_def)
  have h2: "proceeds ?s" by code_simp
  have h3: "inputFramesCopy ?C (acquireSize (atComputation ?s)) (tokens (atComputation ?s)) =
            Inr [[1, 2, 0], [1, 2, 0]]"
    by code_simp
  have h4: "optimalTranspositionIndex [[1, 2, 0], [1, 2, 0]] (referenceFeatureMember ?s) (m_noti ?C) =
            Inr 1"
    by code_simp
  have h5: "1 \<le> length (referenceFeatureMember ?s)" by simp
  have h7: "proceeds ?s'" unfolding s' by code_simp
  have h8: "inputFramesCopy ?C (acquireSize (atComputation ?s')) (tokens (atComputation ?s')) =
            Inr [[1, 2, 0], [0, 0, 1]]"
    unfolding s' by code_simp
  have h9: "optimalTranspositionIndex [[1, 2, 0], [0, 0, 1]] (referenceFeatureMember ?s') (m_noti ?C) =
            Inr 1"
    unfolding s' by code_simp
  have h10: "1 \<le> length (referenceFeatureMember ?s')" unfolding s' by simp
  note inst = process_rotations_compound[OF h1 h2 h3 h4 h5 refl h7 h8 h9 h10]
  have r1: "rotatedBy 1 (referenceFeatureMember ?s) = [[5, 0, 0], [2, 1, 0], [0, 2, 1], [1, 0, 2]]"
    by (simp add: rotatedBy_def)
  have r2: "rotatedBy 1 [[5, 0, 0], [2, 1, 0], [0, 2, 1], [1, 0, 2::real]] =
            [[1, 0, 2], [5, 0, 0], [2, 1, 0], [0, 2, 1]]"
    by (simp add: rotatedBy_def)
  from inst have "referenceFeatureMember ?s' = rotatedBy 1 (referenceFeatureMember ?s)"
    and "referenceFeatureMember (snd (process sampleLibrary ?C ?s')) =
         rotatedBy 1 (rotatedBy 1 (referenceFeatureMember ?s))"
    by blast+
  then show ?thesis unfolding r1 r2 by blast
qed

section \<open>Properties of the optimal transposition index\<close>















section \<open>Properties of the distance mode\<close>

subsection \<open>Shapes of the masks\<close>

text \<open>
  Both operands of the product at line 162 have as many rows as the embedded query has
  frames and as many columns as the embedded reference has frames.
\<close>

lemma length_pairwiseDistance [simp]: "length (pairwiseDistance L A B) = length A"
  by (simp add: pairwiseDistance_def)

lemma pairwiseDistance_row [simp]:
  "i < length A \<Longrightarrow> length (pairwiseDistance L A B ! i) = length B"
  by (simp add: pairwiseDistance_def)

lemma pairwiseDistance_empty [simp]: "(pairwiseDistance L A B = []) = (A = [])"
  by (simp add: pairwiseDistance_def)













subsection \<open>The final matrix as a product\<close>




subsection \<open>Shape of the final matrix\<close>

lemma length_rotatedBy [simp]: "k \<le> length v \<Longrightarrow> length (rotatedBy k v) = length v"
  by (simp add: rotatedBy_def)







end
